theory Spec2Isabelle
  imports Complex_Main
begin

section \<open>JavaScript values\<close>

text \<open>
  The library is TypeScript; its values are JavaScript values. A \<open>number\<close> is a double:
  every finite double is a rational, so the finite numbers are embedded in \<open>rat\<close> (which
  has more members than the doubles, so a statement about every \<open>jsnumber\<close> covers every
  double), next to the three non-finite values. There is one zero, as in the
  \<open>SameValueZero\<close> comparison a \<open>Map\<close> uses for its keys.
\<close>

datatype jsnumber = Num rat | NaN | PosInfinity | NegInfinity

text \<open>
  A value of type \<open>any\<close>. \<open>JFun\<close> is a function object, known by its name only.
  \<open>JObj\<close> carries the own enumerable string-keyed properties of an object whose
  prototype is \<open>Object.prototype\<close> (an object literal, or an object made by
  \<open>JSON.parse\<close>); the order of the keys is not kept.
\<close>

datatype jsval =
    JUndefined
  | JNull
  | JBool bool
  | JNum jsnumber
  | JStr string
  | JFun string
  | JArr "jsval list"
  | JObj "string \<Rightarrow> jsval option"

text \<open>\<open>Record<string, any>\<close>\<close>

type_synonym jsrecord = "string \<Rightarrow> jsval option"

text \<open>
  What a \<open>throw\<close> carries. \<open>Error_Invalid_userId n\<close> is
  \<open>new Error(`Invalid userId: ${userId}`)\<close>; \<open>Thrown\<close> is an exception of user code
  (a callback, a handler, a caller-supplied backend).
\<close>

datatype js_error =
    TypeError
  | SyntaxError
  | Error_Invalid_userId jsnumber
  | Thrown string

text \<open>\<open>Number.isInteger\<close>: a finite number with denominator 1.\<close>

fun Number_isInteger :: "jsnumber \<Rightarrow> bool" where
  "Number_isInteger (Num q) = (snd (quotient_of q) = 1)"
| "Number_isInteger NaN = False"
| "Number_isInteger PosInfinity = False"
| "Number_isInteger NegInfinity = False"

text \<open>\<open>n <= 0\<close> on numbers: every comparison with \<open>NaN\<close> is false.\<close>

fun num_le_zero :: "jsnumber \<Rightarrow> bool" where
  "num_le_zero (Num q) = (q \<le> 0)"
| "num_le_zero NaN = False"
| "num_le_zero PosInfinity = False"
| "num_le_zero NegInfinity = True"

text \<open>Truthiness of a number: \<open>0\<close> and \<open>NaN\<close> are falsy.\<close>

fun num_truthy :: "jsnumber \<Rightarrow> bool" where
  "num_truthy (Num q) = (q \<noteq> 0)"
| "num_truthy NaN = False"
| "num_truthy PosInfinity = True"
| "num_truthy NegInfinity = True"

subsection \<open>Properties of plain objects\<close>

text \<open>
  The members every plain object inherits from \<open>Object.prototype\<close>. They are not own
  properties, but the \<open>in\<close> operator and a property read both see them.
\<close>

definition Object_prototype_keys :: "string list" where
  "Object_prototype_keys =
     [''constructor'', ''hasOwnProperty'', ''isPrototypeOf'', ''propertyIsEnumerable'',
      ''toLocaleString'', ''toString'', ''valueOf'', ''__proto__'',
      ''__defineGetter__'', ''__defineSetter__'', ''__lookupGetter__'', ''__lookupSetter__'']"

text \<open>\<open>key in obj\<close> for a plain object with own properties \<open>m\<close>.\<close>

definition obj_in :: "string \<Rightarrow> jsrecord \<Rightarrow> bool" where
  "obj_in key m = (m key \<noteq> None \<or> key \<in> set Object_prototype_keys)"

text \<open>
  \<open>obj[key]\<close>: the own property, else the inherited member (named after its place),
  else \<open>undefined\<close>.
\<close>

definition obj_get :: "jsrecord \<Rightarrow> string \<Rightarrow> jsval" where
  "obj_get m key =
     (case m key of
        Some v \<Rightarrow> v
      | None \<Rightarrow> if key \<in> set Object_prototype_keys
                then JFun (''Object.prototype.'' @ key) else JUndefined)"

text \<open>
  \<open>obj[key] = value\<close>. Assigning to \<open>__proto__\<close> runs the inherited setter and makes no
  own property (what it does to the prototype is not followed here); every other key
  becomes an own property.
\<close>

definition obj_put :: "jsrecord \<Rightarrow> string \<Rightarrow> jsval \<Rightarrow> jsrecord" where
  "obj_put m key v = (if key = ''__proto__'' then m else m(key \<mapsto> v))"

text \<open>\<open>delete obj[key]\<close>\<close>

definition obj_delete :: "jsrecord \<Rightarrow> string \<Rightarrow> jsrecord" where
  "obj_delete m key = m(key := None)"

text \<open>\<open>{ ...a, ...b }\<close>: the properties of \<open>a\<close>, overwritten and extended by those of \<open>b\<close>.\<close>

definition obj_spread :: "jsrecord \<Rightarrow> jsrecord \<Rightarrow> jsrecord" where
  "obj_spread a b = a ++ b"

section \<open>The session facade with namespaces (\<open>ctx.state\<close>, \<open>ctx.data\<close>, \<open>ctx.fsm\<close>)\<close>

text \<open>
  The functions \<open>createStateNamespace\<close>, \<open>createDataNamespace\<close>, \<open>createFSMContext\<close>
  and \<open>addFSMToContext\<close>, found in \<open>src/index.ts\<close> after the exports.
\<close>

text \<open>\<open>FSMSessionData\<close> of \<open>types.ts\<close>: \<open>state: string | null\<close>, \<open>data: Record<string, any>\<close>.\<close>

record FSMSessionData =
  state :: "string option"
  data :: jsrecord

text \<open>
  The transition callback is user code: it acts on something outside the session (a log,
  a counter, a database), here a value of type \<open>'w\<close>, and it may throw. The facade is the
  session record the closures of \<open>createFSMContext\<close> share, together with that outside
  world.
\<close>

type_synonym 'w onStateChange =
  "string option \<Rightarrow> string option \<Rightarrow> 'w \<Rightarrow> (js_error + unit) \<times> 'w"

record 'w facade =
  sessionData :: FSMSessionData
  world :: 'w

text \<open>The call \<open>onStateChange(oldState, newState)\<close>.\<close>

definition call_onStateChange ::
  "'w onStateChange \<Rightarrow> string option \<Rightarrow> string option \<Rightarrow> 'w facade
     \<Rightarrow> (js_error + unit) \<times> 'w facade" where
  "call_onStateChange cb oldState newState f =
     (case cb oldState newState (world f) of (r, w) \<Rightarrow> (r, f\<lparr>world := w\<rparr>))"

subsection \<open>\<open>createStateNamespace\<close>\<close>

definition state_set ::
  "'w onStateChange option \<Rightarrow> string \<Rightarrow> 'w facade \<Rightarrow> (js_error + unit) \<times> 'w facade" where
  "state_set onStateChange s f =
     (let oldState = state (sessionData f);
          f1 = f\<lparr>sessionData := (sessionData f)\<lparr>state := Some s\<rparr>\<rparr>
      in case onStateChange of
           Some cb \<Rightarrow>
             if oldState \<noteq> Some s then call_onStateChange cb oldState (Some s) f1
             else (Inr (), f1)
         | None \<Rightarrow> (Inr (), f1))"

definition state_get :: "'w facade \<Rightarrow> string option" where
  "state_get f = state (sessionData f)"

definition state_has :: "'w facade \<Rightarrow> bool" where
  "state_has f = (state (sessionData f) \<noteq> None)"

definition state_clear ::
  "'w onStateChange option \<Rightarrow> 'w facade \<Rightarrow> (js_error + unit) \<times> 'w facade" where
  "state_clear onStateChange f =
     (let oldState = state (sessionData f);
          f1 = f\<lparr>sessionData := (sessionData f)\<lparr>state := None\<rparr>\<rparr>
      in case onStateChange of
           Some cb \<Rightarrow>
             if oldState \<noteq> None then call_onStateChange cb oldState None f1
             else (Inr (), f1)
         | None \<Rightarrow> (Inr (), f1))"

text \<open>\<open>toString\<close>: \<open>sessionData.state ?? ""\<close>\<close>

definition state_toString :: "'w facade \<Rightarrow> string" where
  "state_toString f = (case state (sessionData f) of Some s \<Rightarrow> s | None \<Rightarrow> [])"

subsection \<open>\<open>createDataNamespace\<close>: the methods\<close>

definition data_set :: "string \<Rightarrow> jsval \<Rightarrow> FSMSessionData \<Rightarrow> FSMSessionData" where
  "data_set key v sd = sd\<lparr>data := obj_put (data sd) key v\<rparr>"

definition data_get :: "string \<Rightarrow> FSMSessionData \<Rightarrow> jsval" where
  "data_get key sd = obj_get (data sd) key"

definition data_setAll :: "jsrecord \<Rightarrow> FSMSessionData \<Rightarrow> FSMSessionData" where
  "data_setAll d sd = sd\<lparr>data := d\<rparr>"

definition data_getAll :: "FSMSessionData \<Rightarrow> jsrecord" where
  "data_getAll sd = data sd"

text \<open>The method \<open>update\<close> (the record package owns the name \<open>data_update\<close>).\<close>

definition data_update_partial :: "jsrecord \<Rightarrow> FSMSessionData \<Rightarrow> FSMSessionData" where
  "data_update_partial d sd = sd\<lparr>data := obj_spread (data sd) d\<rparr>"

definition data_delete :: "string \<Rightarrow> FSMSessionData \<Rightarrow> FSMSessionData" where
  "data_delete key sd = sd\<lparr>data := obj_delete (data sd) key\<rparr>"

definition data_clear :: "FSMSessionData \<Rightarrow> FSMSessionData" where
  "data_clear sd = sd\<lparr>data := Map.empty\<rparr>"

definition data_toJSON :: "FSMSessionData \<Rightarrow> jsrecord" where
  "data_toJSON sd = data sd"

subsection \<open>\<open>createDataNamespace\<close>: the proxy\<close>

text \<open>
  The string-keyed own members of the object \<open>namespace\<close> the proxy wraps. (Its one
  symbol-keyed member, the inspection hook, has no string name and is left out.)
\<close>

definition namespace_methods :: "string list" where
  "namespace_methods =
     [''set'', ''get'', ''setAll'', ''getAll'', ''update'', ''delete'', ''clear'', ''toJSON'']"

text \<open>\<open>prop in target\<close>: an own method of \<open>namespace\<close> or a member it inherits.\<close>

definition in_target :: "string \<Rightarrow> bool" where
  "in_target prop = (prop \<in> set namespace_methods \<or> prop \<in> set Object_prototype_keys)"

text \<open>\<open>target[prop]\<close> for a \<open>prop\<close> that is in \<open>target\<close>: the function object of that name.\<close>

definition target_get :: "string \<Rightarrow> jsval" where
  "target_get prop =
     (if prop \<in> set namespace_methods then JFun (''namespace.'' @ prop)
      else JFun (''Object.prototype.'' @ prop))"

text \<open>The traps \<open>get\<close>, \<open>set\<close>, \<open>has\<close>, \<open>deleteProperty\<close> and \<open>ownKeys\<close> of the handler.\<close>

definition proxy_get :: "string \<Rightarrow> FSMSessionData \<Rightarrow> jsval" where
  "proxy_get prop sd = (if in_target prop then target_get prop else obj_get (data sd) prop)"

definition proxy_set :: "string \<Rightarrow> jsval \<Rightarrow> FSMSessionData \<Rightarrow> bool \<times> FSMSessionData" where
  "proxy_set prop v sd =
     (if in_target prop then (False, sd)
      else (True, sd\<lparr>data := obj_put (data sd) prop v\<rparr>))"

definition proxy_has :: "string \<Rightarrow> FSMSessionData \<Rightarrow> bool" where
  "proxy_has prop sd = (in_target prop \<or> obj_in prop (data sd))"

definition proxy_deleteProperty :: "string \<Rightarrow> FSMSessionData \<Rightarrow> bool \<times> FSMSessionData" where
  "proxy_deleteProperty prop sd =
     (if in_target prop then (False, sd)
      else (True, sd\<lparr>data := obj_delete (data sd) prop\<rparr>))"

definition proxy_ownKeys :: "FSMSessionData \<Rightarrow> string set" where
  "proxy_ownKeys sd = dom (data sd)"

text \<open>
  The assignment \<open>ctx.data[prop] = value\<close> as the engine runs it on the proxy: it calls
  the \<open>set\<close> trap, and when the trap answers \<open>false\<close> the assignment is dropped in
  non-strict code and raises \<open>TypeError\<close> in strict code (ECMAScript, PutValue). The
  strictness is that of the code holding the assignment; modules and class bodies are
  always strict.
\<close>

definition data_assign ::
  "bool \<Rightarrow> string \<Rightarrow> jsval \<Rightarrow> FSMSessionData \<Rightarrow> (js_error + unit) \<times> FSMSessionData" where
  "data_assign strict prop v sd =
     (case proxy_set prop v sd of
        (True, sd') \<Rightarrow> (Inr (), sd')
      | (False, sd') \<Rightarrow> if strict then (Inl TypeError, sd') else (Inr (), sd'))"

subsection \<open>\<open>createFSMContext\<close> and \<open>addFSMToContext\<close>\<close>

text \<open>\<open>fsm.clear()\<close>\<close>

definition fsm_clear ::
  "'w onStateChange option \<Rightarrow> 'w facade \<Rightarrow> (js_error + unit) \<times> 'w facade" where
  "fsm_clear onStateChange f =
     (let oldState = state (sessionData f);
          f1 = f\<lparr>sessionData := (sessionData f)\<lparr>state := None, data := Map.empty\<rparr>\<rparr>
      in case onStateChange of
           Some cb \<Rightarrow>
             if oldState \<noteq> None then call_onStateChange cb oldState None f1
             else (Inr (), f1)
         | None \<Rightarrow> (Inr (), f1))"

text \<open>The setter of the property \<open>ctx.state\<close>: \<open>ctx.state = value\<close>.\<close>

fun ctx_state_setter ::
  "'w onStateChange option \<Rightarrow> jsval \<Rightarrow> 'w facade \<Rightarrow> (js_error + unit) \<times> 'w facade" where
  "ctx_state_setter onStateChange JUndefined f = state_clear onStateChange f"
| "ctx_state_setter onStateChange JNull f = state_clear onStateChange f"
| "ctx_state_setter onStateChange (JStr s) f = state_set onStateChange s f"
| "ctx_state_setter onStateChange _ f = (Inr (), f)"

text \<open>The setter of the property \<open>ctx.data\<close>: \<open>ctx.data = value\<close>.\<close>

fun ctx_data_setter :: "jsval \<Rightarrow> FSMSessionData \<Rightarrow> FSMSessionData" where
  "ctx_data_setter JUndefined sd = data_clear sd"
| "ctx_data_setter JNull sd = data_clear sd"
| "ctx_data_setter _ sd = sd"

section \<open>The flat session facade of \<open>src/context.ts\<close> (\<open>ctx.fsm\<close>)\<close>

text \<open>
  The accessor \<open>set state(value: string | null)\<close> and the method \<open>setState\<close>; the
  method \<open>clear\<close> of this object is \<open>fsm_clear\<close> above, word for word.
\<close>

definition fsm_state_setter ::
  "'w onStateChange option \<Rightarrow> string option \<Rightarrow> 'w facade \<Rightarrow> (js_error + unit) \<times> 'w facade" where
  "fsm_state_setter onStateChange v f =
     (let oldState = state (sessionData f);
          f1 = f\<lparr>sessionData := (sessionData f)\<lparr>state := v\<rparr>\<rparr>
      in case onStateChange of
           Some cb \<Rightarrow>
             if oldState \<noteq> v then call_onStateChange cb oldState v f1
             else (Inr (), f1)
         | None \<Rightarrow> (Inr (), f1))"

definition fsm_setState ::
  "'w onStateChange option \<Rightarrow> string \<Rightarrow> 'w facade \<Rightarrow> (js_error + unit) \<times> 'w facade" where
  "fsm_setState onStateChange s f =
     (let oldState = state (sessionData f);
          f1 = f\<lparr>sessionData := (sessionData f)\<lparr>state := Some s\<rparr>\<rparr>
      in case onStateChange of
           Some cb \<Rightarrow>
             if oldState \<noteq> Some s then call_onStateChange cb oldState (Some s) f1
             else (Inr (), f1)
         | None \<Rightarrow> (Inr (), f1))"

definition fsm_getState :: "'w facade \<Rightarrow> string option" where
  "fsm_getState f = state (sessionData f)"

definition fsm_hasState :: "'w facade \<Rightarrow> bool" where
  "fsm_hasState f = (state (sessionData f) \<noteq> None)"

subsection \<open>Observing the transition callback\<close>

text \<open>
  To count the calls of a callback, it is wrapped so that each call also appends its
  argument pair to a list kept next to the callback's own world. The wrapped callback
  does what the callback does; the list is the record of its calls, in order.
\<close>

definition logged ::
  "'w onStateChange \<Rightarrow> ('w \<times> (string option \<times> string option) list) onStateChange" where
  "logged cb oldState newState =
     (\<lambda>(w, calls). case cb oldState newState w of
                      (r, w') \<Rightarrow> (r, (w', calls @ [(oldState, newState)])))"

text \<open>
  The entry points that write \<open>sessionData.state\<close>: of the namespaced API \<open>state.set\<close>,
  \<open>state.clear\<close>, the assignment \<open>ctx.state = value\<close> and \<open>fsm.clear\<close>; of the flat API
  \<open>fsm.setState\<close> and the assignment \<open>ctx.fsm.state = value\<close>.
\<close>

datatype state_mutation =
    State_set string
  | State_clear
  | Ctx_state_assign jsval
  | Fsm_clear
  | Fsm_setState string
  | Fsm_state_assign "string option"

fun mutate ::
  "'w onStateChange option \<Rightarrow> state_mutation \<Rightarrow> 'w facade \<Rightarrow> (js_error + unit) \<times> 'w facade" where
  "mutate cb (State_set s) f = state_set cb s f"
| "mutate cb State_clear f = state_clear cb f"
| "mutate cb (Ctx_state_assign v) f = ctx_state_setter cb v f"
| "mutate cb Fsm_clear f = fsm_clear cb f"
| "mutate cb (Fsm_setState s) f = fsm_setState cb s f"
| "mutate cb (Fsm_state_assign v) f = fsm_state_setter cb v f"

text \<open>The value a mutation asks for, given the current one.\<close>

fun assigned_state :: "state_mutation \<Rightarrow> string option \<Rightarrow> string option" where
  "assigned_state (State_set s) cur = Some s"
| "assigned_state State_clear cur = None"
| "assigned_state (Ctx_state_assign JUndefined) cur = None"
| "assigned_state (Ctx_state_assign JNull) cur = None"
| "assigned_state (Ctx_state_assign (JStr s)) cur = Some s"
| "assigned_state (Ctx_state_assign _) cur = cur"
| "assigned_state Fsm_clear cur = None"
| "assigned_state (Fsm_setState s) cur = Some s"
| "assigned_state (Fsm_state_assign v) cur = v"

section \<open>The storage backends\<close>

subsection \<open>\<open>FSMStorage\<close> (\<open>types.ts\<close>)\<close>

text \<open>
  The interface the middleware talks to. Each method is a promise: it acts on the
  backend's state \<open>'s\<close> and resolves (\<open>Inr\<close>) or rejects (\<open>Inl\<close>).
\<close>

record 's FSMStorage =
  setState :: "jsnumber \<Rightarrow> string \<Rightarrow> 's \<Rightarrow> (js_error + unit) \<times> 's"
  getState :: "jsnumber \<Rightarrow> 's \<Rightarrow> (js_error + string option) \<times> 's"
  setData :: "jsnumber \<Rightarrow> jsrecord \<Rightarrow> 's \<Rightarrow> (js_error + unit) \<times> 's"
  getData :: "jsnumber \<Rightarrow> 's \<Rightarrow> (js_error + jsrecord option) \<times> 's"
  updateData :: "jsnumber \<Rightarrow> jsrecord \<Rightarrow> 's \<Rightarrow> (js_error + unit) \<times> 's"
  clear :: "jsnumber \<Rightarrow> 's \<Rightarrow> (js_error + unit) \<times> 's"

subsection \<open>\<open>MemoryStorage\<close> (\<open>storage/memory.ts\<close>)\<close>

text \<open>
  \<open>StorageData\<close> has the fields of \<open>FSMSessionData\<close>, so under structural typing it is
  the same type. The private field \<open>storage\<close> is a \<open>Map<number, StorageData>\<close>. The
  map holds references to the objects it is given; records are taken by value here, which
  is what a single call observes.
\<close>

type_synonym StorageData = FSMSessionData

type_synonym MemoryStorage = "jsnumber \<Rightarrow> StorageData option"

text \<open>\<open>this.storage.get(userId) ?? { state: null, data: {} }\<close>\<close>

definition Memory_current :: "jsnumber \<Rightarrow> MemoryStorage \<Rightarrow> StorageData" where
  "Memory_current userId m =
     (case m userId of Some cur \<Rightarrow> cur | None \<Rightarrow> \<lparr>state = None, data = Map.empty\<rparr>)"

definition Memory_setState :: "jsnumber \<Rightarrow> string \<Rightarrow> MemoryStorage \<Rightarrow> MemoryStorage" where
  "Memory_setState userId s m = m(userId \<mapsto> (Memory_current userId m)\<lparr>state := Some s\<rparr>)"

definition Memory_getState :: "jsnumber \<Rightarrow> MemoryStorage \<Rightarrow> string option" where
  "Memory_getState userId m = (case m userId of Some cur \<Rightarrow> state cur | None \<Rightarrow> None)"

definition Memory_setData :: "jsnumber \<Rightarrow> jsrecord \<Rightarrow> MemoryStorage \<Rightarrow> MemoryStorage" where
  "Memory_setData userId d m = m(userId \<mapsto> (Memory_current userId m)\<lparr>data := d\<rparr>)"

text \<open>\<open>data && Object.keys(data).length > 0 ? data : null\<close>\<close>

definition Memory_getData :: "jsnumber \<Rightarrow> MemoryStorage \<Rightarrow> jsrecord option" where
  "Memory_getData userId m =
     (case m userId of
        Some cur \<Rightarrow> if data cur \<noteq> Map.empty then Some (data cur) else None
      | None \<Rightarrow> None)"

definition Memory_updateData :: "jsnumber \<Rightarrow> jsrecord \<Rightarrow> MemoryStorage \<Rightarrow> MemoryStorage" where
  "Memory_updateData userId d m =
     m(userId \<mapsto> (Memory_current userId m)
                    \<lparr>data := obj_spread (data (Memory_current userId m)) d\<rparr>)"

definition Memory_clear :: "jsnumber \<Rightarrow> MemoryStorage \<Rightarrow> MemoryStorage" where
  "Memory_clear userId m = m(userId := None)"

definition Memory_getUserIds :: "MemoryStorage \<Rightarrow> jsnumber set" where
  "Memory_getUserIds m = dom m"

definition Memory_clearAll :: "MemoryStorage \<Rightarrow> MemoryStorage" where
  "Memory_clearAll m = Map.empty"

text \<open>\<open>MemoryStorage implements FSMStorage\<close>: none of its methods rejects.\<close>

definition MemoryStorage_FSMStorage :: "MemoryStorage FSMStorage" where
  "MemoryStorage_FSMStorage =
     \<lparr>setState = (\<lambda>userId s m. (Inr (), Memory_setState userId s m)),
      getState = (\<lambda>userId m. (Inr (Memory_getState userId m), m)),
      setData = (\<lambda>userId d m. (Inr (), Memory_setData userId d m)),
      getData = (\<lambda>userId m. (Inr (Memory_getData userId m), m)),
      updateData = (\<lambda>userId d m. (Inr (), Memory_updateData userId d m)),
      clear = (\<lambda>userId m. (Inr (), Memory_clear userId m))\<rparr>"

subsection \<open>The key-value client and the JSON codec\<close>

text \<open>
  \<open>RedisStorage\<close> is handed a client with the four methods of the interface
  \<open>RedisClient\<close>. The client is not part of the library; it is taken here to be a store
  that keeps, under each key, a text and the expiry it was written with (in seconds, none
  for a plain \<open>set\<close>), and that records every call made on it. The passing of time, and
  with it the expiry itself, is outside this model, and so are failures of the connection.
\<close>

datatype redis_call =
    Call_get string
  | Call_set string string
  | Call_setex string jsnumber string
  | Call_del "string list"

record RedisClient =
  entries :: "string \<Rightarrow> (string \<times> jsnumber option) option"
  calls :: "redis_call list"

definition redis_get :: "string \<Rightarrow> RedisClient \<Rightarrow> string option \<times> RedisClient" where
  "redis_get key c = (map_option fst (entries c key), c\<lparr>calls := calls c @ [Call_get key]\<rparr>)"

definition redis_set :: "string \<Rightarrow> string \<Rightarrow> RedisClient \<Rightarrow> RedisClient" where
  "redis_set key v c =
     c\<lparr>entries := (entries c)(key \<mapsto> (v, None)), calls := calls c @ [Call_set key v]\<rparr>"

definition redis_setex :: "string \<Rightarrow> jsnumber \<Rightarrow> string \<Rightarrow> RedisClient \<Rightarrow> RedisClient" where
  "redis_setex key seconds v c =
     c\<lparr>entries := (entries c)(key \<mapsto> (v, Some seconds)),
       calls := calls c @ [Call_setex key seconds v]\<rparr>"

definition redis_del :: "string list \<Rightarrow> RedisClient \<Rightarrow> RedisClient" where
  "redis_del keys c =
     c\<lparr>entries := (\<lambda>k. if k \<in> set keys then None else entries c k),
       calls := calls c @ [Call_del keys]\<rparr>"

text \<open>
  \<open>JSON.parse\<close> and \<open>JSON.stringify\<close> belong to the runtime. Both can throw; what they
  compute is a parameter of the methods below.
\<close>

record JSON =
  JSON_parse :: "string \<Rightarrow> js_error + jsval"
  JSON_stringify :: "jsval \<Rightarrow> js_error + string"

text \<open>
  The decimal digits of a natural number: what \<open>toString()\<close> gives for a non-negative
  integer up to \<open>2^53\<close>. Above that the runtime prints the shortest digits that read back
  as the same double, and from \<open>10^21\<close> on an exponent; identifiers of that size are
  outside this model.
\<close>

function nat_toString :: "nat \<Rightarrow> string" where
  "nat_toString n =
     (if n < 10 then [''0123456789'' ! n]
      else nat_toString (n div 10) @ [''0123456789'' ! (n mod 10)])"
  by pat_completeness auto
termination
  by (relation "measure id") auto

declare nat_toString.simps [simp del]

text \<open>
  The own enumerable string-keyed properties of a value, as \<open>{ ...v }\<close> and
  \<open>Object.keys(v)\<close> see them: the properties of an object, the indices of an array or of a
  string, nothing for the other primitives.
\<close>

definition indexed :: "jsval list \<Rightarrow> jsrecord" where
  "indexed xs = map_of (zip (map nat_toString [0..<length xs]) xs)"

fun own_properties :: "jsval \<Rightarrow> jsrecord" where
  "own_properties (JObj m) = m"
| "own_properties (JArr xs) = indexed xs"
| "own_properties (JStr s) = indexed (map (\<lambda>c. JStr [c]) s)"
| "own_properties _ = Map.empty"

text \<open>
  \<open>Object.keys(v).length > 0\<close>. \<open>Object.keys\<close> throws \<open>TypeError\<close> on \<open>null\<close> and
  \<open>undefined\<close>.
\<close>

fun Object_keys_nonempty :: "jsval \<Rightarrow> js_error + bool" where
  "Object_keys_nonempty JUndefined = Inl TypeError"
| "Object_keys_nonempty JNull = Inl TypeError"
| "Object_keys_nonempty (JObj m) = Inr (m \<noteq> Map.empty)"
| "Object_keys_nonempty (JArr xs) = Inr (xs \<noteq> [])"
| "Object_keys_nonempty (JStr s) = Inr (s \<noteq> [])"
| "Object_keys_nonempty _ = Inr False"

subsection \<open>\<open>RedisStorage\<close> (\<open>storage/redis.ts\<close>)\<close>

text \<open>
  The private fields \<open>keyPrefix\<close> and \<open>ttl\<close>; the third, \<open>redis\<close>, is the client.
  The test \<open>if (this.ttl)\<close> of the setters is one of truthiness: it fails for a missing
  \<open>ttl\<close> and for the numbers \<open>0\<close> and \<open>NaN\<close>.
\<close>

record RedisStorage =
  keyPrefix :: string
  ttl :: "jsnumber option"

text \<open>The constructor: \<open>options.keyPrefix ?? "fsm:"\<close>, \<open>options.ttl\<close>.\<close>

definition RedisStorage_new :: "string option \<Rightarrow> jsnumber option \<Rightarrow> RedisStorage" where
  "RedisStorage_new prefix t =
     \<lparr>keyPrefix = (case prefix of Some p \<Rightarrow> p | None \<Rightarrow> ''fsm:''), ttl = t\<rparr>"

text \<open>
  \<open>sanitizeUserId\<close>. Past the guard the number is a positive integer, the numerator of
  its fraction; the last case is never reached, as no non-finite number is an integer.
\<close>

definition sanitizeUserId :: "jsnumber \<Rightarrow> js_error + string" where
  "sanitizeUserId userId =
     (if \<not> Number_isInteger userId \<or> num_le_zero userId
      then Inl (Error_Invalid_userId userId)
      else case userId of
             Num q \<Rightarrow> Inr (nat_toString (nat (fst (quotient_of q))))
           | _ \<Rightarrow> Inl (Error_Invalid_userId userId))"

definition getStateKey :: "RedisStorage \<Rightarrow> jsnumber \<Rightarrow> js_error + string" where
  "getStateKey this userId =
     (case sanitizeUserId userId of
        Inl e \<Rightarrow> Inl e
      | Inr s \<Rightarrow> Inr (keyPrefix this @ s @ '':state''))"

definition getDataKey :: "RedisStorage \<Rightarrow> jsnumber \<Rightarrow> js_error + string" where
  "getDataKey this userId =
     (case sanitizeUserId userId of
        Inl e \<Rightarrow> Inl e
      | Inr s \<Rightarrow> Inr (keyPrefix this @ s @ '':data''))"

definition Redis_setState ::
  "RedisStorage \<Rightarrow> jsnumber \<Rightarrow> string \<Rightarrow> RedisClient \<Rightarrow> (js_error + unit) \<times> RedisClient" where
  "Redis_setState this userId s c =
     (case getStateKey this userId of
        Inl e \<Rightarrow> (Inl e, c)
      | Inr key \<Rightarrow>
          (case ttl this of
             Some t \<Rightarrow>
               if num_truthy t then (Inr (), redis_setex key t s c)
               else (Inr (), redis_set key s c)
           | None \<Rightarrow> (Inr (), redis_set key s c)))"

definition Redis_getState ::
  "RedisStorage \<Rightarrow> jsnumber \<Rightarrow> RedisClient \<Rightarrow> (js_error + string option) \<times> RedisClient" where
  "Redis_getState this userId c =
     (case getStateKey this userId of
        Inl e \<Rightarrow> (Inl e, c)
      | Inr key \<Rightarrow> (case redis_get key c of (v, c') \<Rightarrow> (Inr v, c')))"

definition Redis_setData ::
  "JSON \<Rightarrow> RedisStorage \<Rightarrow> jsnumber \<Rightarrow> jsrecord \<Rightarrow> RedisClient
     \<Rightarrow> (js_error + unit) \<times> RedisClient" where
  "Redis_setData J this userId d c =
     (case getDataKey this userId of
        Inl e \<Rightarrow> (Inl e, c)
      | Inr key \<Rightarrow>
          (case JSON_stringify J (JObj d) of
             Inl e \<Rightarrow> (Inl e, c)
           | Inr serialized \<Rightarrow>
               (case ttl this of
                  Some t \<Rightarrow>
                    if num_truthy t then (Inr (), redis_setex key t serialized c)
                    else (Inr (), redis_set key serialized c)
                | None \<Rightarrow> (Inr (), redis_set key serialized c))))"

text \<open>
  \<open>getData\<close>. The declared result is \<open>Record<string, any> | null\<close>, but \<open>parsed\<close> has the
  type \<open>any\<close> and is returned as it is, so the result is a value: \<open>JNull\<close> for \<open>null\<close>.
  \<open>!data\<close> holds for \<open>null\<close> and for the empty text. Everything thrown inside the
  \<open>try\<close> (by \<open>JSON.parse\<close>, by \<open>Object.keys\<close>) ends in the \<open>catch\<close>, which returns
  \<open>null\<close> (and writes to the console, which is not modelled).
\<close>

definition Redis_getData ::
  "JSON \<Rightarrow> RedisStorage \<Rightarrow> jsnumber \<Rightarrow> RedisClient \<Rightarrow> (js_error + jsval) \<times> RedisClient" where
  "Redis_getData J this userId c =
     (case getDataKey this userId of
        Inl e \<Rightarrow> (Inl e, c)
      | Inr key \<Rightarrow>
          (case redis_get key c of
             (None, c') \<Rightarrow> (Inr JNull, c')
           | (Some text, c') \<Rightarrow>
               if text = [] then (Inr JNull, c')
               else (case JSON_parse J text of
                       Inl e \<Rightarrow> (Inr JNull, c')
                     | Inr parsed \<Rightarrow>
                         (case Object_keys_nonempty parsed of
                            Inl e \<Rightarrow> (Inr JNull, c')
                          | Inr nonempty \<Rightarrow> (Inr (if nonempty then parsed else JNull), c')))))"

text \<open>\<open>updateData\<close>: \<open>(await this.getData(userId)) ?? {}\<close>, then the spread, then \<open>setData\<close>.\<close>

definition Redis_updateData ::
  "JSON \<Rightarrow> RedisStorage \<Rightarrow> jsnumber \<Rightarrow> jsrecord \<Rightarrow> RedisClient
     \<Rightarrow> (js_error + unit) \<times> RedisClient" where
  "Redis_updateData J this userId d c =
     (case Redis_getData J this userId c of
        (Inl e, c') \<Rightarrow> (Inl e, c')
      | (Inr got, c') \<Rightarrow>
          (let current = (if got = JNull \<or> got = JUndefined then JObj Map.empty else got);
               updated = obj_spread (own_properties current) d
           in Redis_setData J this userId updated c'))"

definition Redis_clear ::
  "RedisStorage \<Rightarrow> jsnumber \<Rightarrow> RedisClient \<Rightarrow> (js_error + unit) \<times> RedisClient" where
  "Redis_clear this userId c =
     (case getStateKey this userId of
        Inl e \<Rightarrow> (Inl e, c)
      | Inr stateKey \<Rightarrow>
          (case getDataKey this userId of
             Inl e \<Rightarrow> (Inl e, c)
           | Inr dataKey \<Rightarrow> (Inr (), redis_del [stateKey, dataKey] c)))"

section \<open>The lifecycle middleware (\<open>plugin.ts\<close>)\<close>

text \<open>
  \<open>next\<close> runs the downstream handlers. They are user code: they may throw, and they act
  on the world outside; where the facade is attached they also act on the session,
  through methods bound to the callback of this user. Where \<open>createFSM\<close> found no user,
  they run without a facade.
\<close>

record 'w NextFunction =
  next_attached :: "'w onStateChange option \<Rightarrow> 'w facade \<Rightarrow> (js_error + unit) \<times> 'w facade"
  next_plain :: "'w \<Rightarrow> (js_error + unit) \<times> 'w"

text \<open>
  What one run of the middleware leaves behind: how its promise settled, the backend, and
  the world outside.
\<close>

record ('s, 'w) invocation =
  outcome :: "js_error + unit"
  store :: 's
  outside :: 'w

text \<open>
  The middleware \<open>createFSM(options)\<close> returns, for a backend already chosen by
  \<open>initializeStorage\<close>. \<open>from_id\<close> is \<open>ctx.from?.id\<close>; \<open>!userId\<close> holds when it is missing,
  \<open>0\<close> or \<open>NaN\<close>. A rejected \<open>await\<close> ends the run there. \<open>data || {}\<close>: the backend's
  \<open>null\<close> becomes the empty record. The backend changes through its methods only: the
  session is a value, so what the handlers do to an object that a backend shares with
  the session (\<open>MemoryStorage\<close> hands out the object it holds) is not followed.
\<close>

definition createFSM ::
  "'s FSMStorage \<Rightarrow> (jsnumber \<Rightarrow> 'w onStateChange) option \<Rightarrow> jsnumber option
     \<Rightarrow> 'w NextFunction \<Rightarrow> 's \<Rightarrow> 'w \<Rightarrow> ('s, 'w) invocation" where
  "createFSM storage globalOnStateChange from_id next st w =
     (case from_id of
        None \<Rightarrow>
          (case next_plain next w of
             (r, w') \<Rightarrow> \<lparr>outcome = r, store = st, outside = w'\<rparr>)
      | Some userId \<Rightarrow>
          if \<not> num_truthy userId then
            (case next_plain next w of
               (r, w') \<Rightarrow> \<lparr>outcome = r, store = st, outside = w'\<rparr>)
          else
            (case getState storage userId st of
               (Inl e, st1) \<Rightarrow> \<lparr>outcome = Inl e, store = st1, outside = w\<rparr>
             | (Inr loaded, st1) \<Rightarrow>
                 (case getData storage userId st1 of
                    (Inl e, st2) \<Rightarrow> \<lparr>outcome = Inl e, store = st2, outside = w\<rparr>
                  | (Inr loaded_data, st2) \<Rightarrow>
                      (let session =
                             \<lparr>state = loaded,
                              data = (case loaded_data of Some d \<Rightarrow> d | None \<Rightarrow> Map.empty)\<rparr>;
                           onStateChange = map_option (\<lambda>g. g userId) globalOnStateChange
                       in case next_attached next onStateChange
                                 \<lparr>sessionData = session, world = w\<rparr> of
                            (Inl e, f) \<Rightarrow> \<lparr>outcome = Inl e, store = st2, outside = world f\<rparr>
                          | (Inr u, f) \<Rightarrow>
                              (case state (sessionData f) of
                                 Some s \<Rightarrow>
                                   (case setState storage userId s st2 of
                                      (Inl e, st3) \<Rightarrow>
                                        \<lparr>outcome = Inl e, store = st3, outside = world f\<rparr>
                                    | (Inr u, st3) \<Rightarrow>
                                        (case setData storage userId (data (sessionData f)) st3 of
                                           (r, st4) \<Rightarrow>
                                             \<lparr>outcome = r, store = st4, outside = world f\<rparr>))
                               | None \<Rightarrow>
                                   if loaded \<noteq> None then
                                     (case clear storage userId st2 of
                                        (r, st3) \<Rightarrow>
                                          \<lparr>outcome = r, store = st3, outside = world f\<rparr>)
                                   else \<lparr>outcome = Inr (), store = st2, outside = world f\<rparr>)))))"

subsection \<open>Observing the backend calls\<close>

text \<open>
  To see which calls a run makes on its backend, the backend is wrapped so that each of
  its methods, when applied, also appends the call with its arguments to a list kept next
  to the backend's state. The wrapped method does what the method does; the list is the
  record of the methods applied, in order.
\<close>

datatype storage_call =
    Storage_setState jsnumber string
  | Storage_getState jsnumber
  | Storage_setData jsnumber jsrecord
  | Storage_getData jsnumber
  | Storage_updateData jsnumber jsrecord
  | Storage_clear jsnumber

definition traced :: "'s FSMStorage \<Rightarrow> ('s \<times> storage_call list) FSMStorage" where
  "traced storage =
     \<lparr>setState = (\<lambda>userId s (st, tr).
        case setState storage userId s st of
          (r, st') \<Rightarrow> (r, (st', tr @ [Storage_setState userId s]))),
      getState = (\<lambda>userId (st, tr).
        case getState storage userId st of
          (r, st') \<Rightarrow> (r, (st', tr @ [Storage_getState userId]))),
      setData = (\<lambda>userId d (st, tr).
        case setData storage userId d st of
          (r, st') \<Rightarrow> (r, (st', tr @ [Storage_setData userId d]))),
      getData = (\<lambda>userId (st, tr).
        case getData storage userId st of
          (r, st') \<Rightarrow> (r, (st', tr @ [Storage_getData userId]))),
      updateData = (\<lambda>userId d (st, tr).
        case updateData storage userId d st of
          (r, st') \<Rightarrow> (r, (st', tr @ [Storage_updateData userId d]))),
      clear = (\<lambda>userId (st, tr).
        case clear storage userId st of
          (r, st') \<Rightarrow> (r, (st', tr @ [Storage_clear userId])))\<rparr>"

section \<open>Sample inputs\<close>

text \<open>
  A handful of JSON texts with the values \<open>JSON.parse\<close> gives them, and the two records
  among them with the text \<open>JSON.stringify\<close> gives them. Outside these few entries the
  sample codec throws; it is used only at these entries.
\<close>

definition sample_parse :: "string \<Rightarrow> js_error + jsval" where
  \<open>sample_parse text =
     (if text = ''{"a":1}'' then Inr (JObj [''a'' \<mapsto> JNum (Num 1)])
      else if text = ''{"a":2,"b":3}''
        then Inr (JObj [''a'' \<mapsto> JNum (Num 2), ''b'' \<mapsto> JNum (Num 3)])
      else if text = ''{}'' then Inr (JObj Map.empty)
      else if text = ''null'' then Inr JNull
      else if text = ''"abc"'' then Inr (JStr ''abc'')
      else Inl SyntaxError)\<close>

definition sample_stringify :: "jsval \<Rightarrow> js_error + string" where
  \<open>sample_stringify v =
     (if v = JObj [''a'' \<mapsto> JNum (Num 1)] then Inr ''{"a":1}''
      else if v = JObj [''a'' \<mapsto> JNum (Num 2), ''b'' \<mapsto> JNum (Num 3)]
        then Inr ''{"a":2,"b":3}''
      else Inl TypeError)\<close>

definition sample_JSON :: JSON where
  "sample_JSON = \<lparr>JSON_parse = sample_parse, JSON_stringify = sample_stringify\<rparr>"

text \<open>A client that holds nothing and has served no call.\<close>

definition fresh_client :: RedisClient where
  "fresh_client = \<lparr>entries = Map.empty, calls = []\<rparr>"


section \<open>Properties of the facade\<close>

lemma logged_call:
  "call_onStateChange (logged cb) old new f =
     (fst (cb old new (fst (world f))),
      f\<lparr>world := (snd (cb old new (fst (world f))), snd (world f) @ [(old, new)])\<rparr>)"
  by (simp add: call_onStateChange_def logged_def split: prod.splits)

lemma mutate_logged:
  "mutate (Some (logged cb)) m f =
     (let old = state (sessionData f); new = assigned_state m old;
          f1 = f\<lparr>sessionData := (sessionData f)
                 \<lparr>state := new,
                  data := (if m = Fsm_clear then Map.empty else data (sessionData f))\<rparr>\<rparr>
      in if new \<noteq> old
         then (fst (cb old new (fst (world f))),
               f1\<lparr>world := (snd (cb old new (fst (world f))), snd (world f) @ [(old, new)])\<rparr>)
         else (Inr (), f1))"
proof (cases m)
  case (Ctx_state_assign v)
  then show ?thesis
    by (cases v)
       (auto simp: Let_def state_set_def state_clear_def logged_call)
qed (auto simp: Let_def state_set_def state_clear_def fsm_clear_def fsm_setState_def
       fsm_state_setter_def logged_call)

text \<open>
  C3. Whatever the configured callback \<open>cb\<close> is, each mutation of the state through the
  facade (\<open>state.set\<close>, \<open>state.clear\<close>, the assignment \<open>ctx.state = value\<close>, and also
  \<open>fsm.clear\<close>, \<open>fsm.setState\<close> and \<open>ctx.fsm.state = value\<close>) leaves the assigned value
  in the session and adds to the record of the callback's calls exactly one entry, the
  pair (old state, new state), when the new value differs from the old one, and no entry
  when it equals the current value.
\<close>

theorem onStateChange_once_per_change:
  "state (sessionData (snd (mutate (Some (logged cb)) m f)))
     = assigned_state m (state (sessionData f))
   \<and> snd (world (snd (mutate (Some (logged cb)) m f)))
     = snd (world f) @
       (if assigned_state m (state (sessionData f)) \<noteq> state (sessionData f)
        then [(state (sessionData f), assigned_state m (state (sessionData f)))]
        else [])"
  by (simp add: mutate_logged Let_def)

theorem onStateChange_once_per_change_witness:
  "snd (world (snd (mutate (Some (logged (\<lambda>old new w. (Inr (), w))))
           (State_set ''b'')
           \<lparr>sessionData = \<lparr>state = Some ''a'', data = Map.empty\<rparr>, world = ((), [])\<rparr>)))
     = [(Some ''a'', Some ''b'')]
   \<and> snd (world (snd (mutate (Some (logged (\<lambda>old new w. (Inr (), w))))
           (State_set ''b'')
           \<lparr>sessionData = \<lparr>state = Some ''b'', data = Map.empty\<rparr>,
            world = ((), [(Some ''a'', Some ''b'')])\<rparr>)))
     = [(Some ''a'', Some ''b'')]"
  using onStateChange_once_per_change
          [of "\<lambda>old new w. (Inr (), w)" "State_set ''b''"
              "\<lparr>sessionData = \<lparr>state = Some ''a'', data = Map.empty\<rparr>, world = ((), [])\<rparr>"]
        onStateChange_once_per_change
          [of "\<lambda>old new w. (Inr (), w)" "State_set ''b''"
              "\<lparr>sessionData = \<lparr>state = Some ''b'', data = Map.empty\<rparr>,
               world = ((), [(Some ''a'', Some ''b'')])\<rparr>"]
  by simp

text \<open>
  C9. Assigning through \<open>ctx.state = value\<close> a value that is neither a string nor
  \<open>null\<close> nor \<open>undefined\<close> returns normally and leaves the facade as it was: the state is
  unchanged and the callback, configured or not, has not run.
\<close>

theorem ctx_state_setter_ignores_other_values:
  assumes "v \<noteq> JUndefined" and "v \<noteq> JNull" and "\<forall>s. v \<noteq> JStr s"
  shows "ctx_state_setter onStateChange v f = (Inr (), f)"
  using assms by (cases v) simp_all

theorem ctx_state_setter_ignores_other_values_witness:
  "JNum (Num 42) \<noteq> JUndefined \<and> JNum (Num 42) \<noteq> JNull \<and> (\<forall>s. JNum (Num 42) \<noteq> JStr s)
   \<and> ctx_state_setter (Some (logged (\<lambda>old new w. (Inl (Thrown ''callback''), w))))
        (JNum (Num 42))
        \<lparr>sessionData = \<lparr>state = Some ''a'', data = Map.empty\<rparr>, world = ((), [])\<rparr>
     = (Inr (), \<lparr>sessionData = \<lparr>state = Some ''a'', data = Map.empty\<rparr>, world = ((), [])\<rparr>)"
  using ctx_state_setter_ignores_other_values
          [of "JNum (Num 42)" "Some (logged (\<lambda>old new w. (Inl (Thrown ''callback''), w)))"
              "\<lparr>sessionData = \<lparr>state = Some ''a'', data = Map.empty\<rparr>, world = ((), [])\<rparr>"]
  by simp

section \<open>Properties of the in-memory backend\<close>

text \<open>
  C10. \<open>setState\<close> of the in-memory backend leaves the key's stored data as it was, and
  \<open>setData\<close> leaves its stored state as it was (also as \<open>getData\<close> and \<open>getState\<close> read
  them); on a key without a record each makes a fresh record whose other component is the
  default, no state or the empty mapping.
\<close>

theorem Memory_setters_frame:
  "map_option data (Memory_setState userId s m userId)
     = Some (case m userId of Some cur \<Rightarrow> data cur | None \<Rightarrow> Map.empty)
   \<and> map_option state (Memory_setData userId d m userId)
     = Some (case m userId of Some cur \<Rightarrow> state cur | None \<Rightarrow> None)
   \<and> Memory_getData userId (Memory_setState userId s m) = Memory_getData userId m
   \<and> Memory_getState userId (Memory_setData userId d m) = Memory_getState userId m
   \<and> (m userId = None \<longrightarrow>
        Memory_setState userId s m userId = Some \<lparr>state = Some s, data = Map.empty\<rparr>
      \<and> Memory_setData userId d m userId = Some \<lparr>state = None, data = d\<rparr>)"
  by (auto simp: Memory_setState_def Memory_setData_def Memory_getData_def Memory_getState_def
        Memory_current_def split: option.splits)

theorem Memory_setters_frame_witness:
  "(Map.empty :: MemoryStorage) (Num 42) = None
   \<and> Memory_setState (Num 42) ''a'' Map.empty (Num 42) = Some \<lparr>state = Some ''a'', data = Map.empty\<rparr>
   \<and> Memory_setData (Num 42) [''x'' \<mapsto> JNum (Num 1)] Map.empty (Num 42)
       = Some \<lparr>state = None, data = [''x'' \<mapsto> JNum (Num 1)]\<rparr>
   \<and> map_option data (Memory_setState (Num 42) ''b''
         [Num 42 \<mapsto> \<lparr>state = Some ''a'', data = [''x'' \<mapsto> JNum (Num 1)]\<rparr>] (Num 42))
       = Some [''x'' \<mapsto> JNum (Num 1)]"
  using Memory_setters_frame [of "Num 42" "''a''" Map.empty "[''x'' \<mapsto> JNum (Num 1)]"]
        Memory_setters_frame [of "Num 42" "''b''"
          "[Num 42 \<mapsto> \<lparr>state = Some ''a'', data = [''x'' \<mapsto> JNum (Num 1)]\<rparr>]" Map.empty]
  by simp

section \<open>Properties of the external backend\<close>

lemma nat_toString_42: "nat_toString 42 = ''42''" by code_simp

lemma quotient_of_42: "quotient_of 42 = (42, 1)" by code_simp

lemma not_int_3_2: "\<not> Number_isInteger (Num (3/2))" by code_simp

lemma sanitize_42: "sanitizeUserId (Num 42) = Inr ''42''"
  by (simp add: sanitizeUserId_def quotient_of_42 nat_toString_42)

lemma getDataKey_42: "getDataKey (RedisStorage_new None None) (Num 42) = Inr ''fsm:42:data''"
  by (simp add: getDataKey_def sanitize_42 RedisStorage_new_def)

lemma sanitizeUserId_invalid:
  "\<not> Number_isInteger userId \<or> num_le_zero userId \<Longrightarrow> sanitizeUserId userId = Inl (Error_Invalid_userId userId)"
  by (simp add: sanitizeUserId_def)

text \<open>
  C7. For a user id that is not an integer or is not positive, each of the six methods of
  the external backend rejects with the invalid-id error and leaves the client exactly as
  it was: no call has been made on it.
\<close>

theorem invalid_userId_fails_fast:
  assumes "\<not> Number_isInteger userId \<or> num_le_zero userId"
  shows "Redis_setState this userId s c = (Inl (Error_Invalid_userId userId), c)
       \<and> Redis_getState this userId c = (Inl (Error_Invalid_userId userId), c)
       \<and> Redis_setData J this userId d c = (Inl (Error_Invalid_userId userId), c)
       \<and> Redis_getData J this userId c = (Inl (Error_Invalid_userId userId), c)
       \<and> Redis_updateData J this userId d c = (Inl (Error_Invalid_userId userId), c)
       \<and> Redis_clear this userId c = (Inl (Error_Invalid_userId userId), c)"
  using sanitizeUserId_invalid [OF assms]
  by (simp add: Redis_setState_def Redis_getState_def Redis_setData_def Redis_getData_def
        Redis_updateData_def Redis_clear_def getStateKey_def getDataKey_def)

theorem invalid_userId_fails_fast_witness:
  "\<not> Number_isInteger (Num (3/2))
   \<and> Redis_setState (RedisStorage_new None None) (Num (3/2)) ''a'' fresh_client
       = (Inl (Error_Invalid_userId (Num (3/2))), fresh_client)
   \<and> calls (snd (Redis_updateData sample_JSON (RedisStorage_new None None) (Num (3/2))
                   Map.empty fresh_client)) = []"
proof -
  have h: "\<not> Number_isInteger (Num (3/2)) \<or> num_le_zero (Num (3/2))"
    using not_int_3_2 by blast
  have "calls fresh_client = []"
    by (simp add: fresh_client_def)
  with not_int_3_2
       invalid_userId_fails_fast [OF h, of "RedisStorage_new None None" "''a''" fresh_client
         sample_JSON Map.empty]
  show ?thesis by (simp del: Number_isInteger.simps num_le_zero.simps)
qed

text \<open>
  C8, as amended. For a valid user key, \<open>setState\<close> and \<open>setData\<close> each make one call on
  the client, on the derived sub-key: \<open>setex\<close> carrying the configured time-to-live when
  that is truthy (not missing, not \<open>0\<close>, not \<open>NaN\<close>), a plain \<open>set\<close> otherwise.
\<close>

theorem writes_carry_ttl:
  assumes "sanitizeUserId userId = Inr k"
  shows "calls (snd (Redis_setState this userId s c))
           = calls c @ [case ttl this of
                          Some t \<Rightarrow> if num_truthy t then Call_setex (keyPrefix this @ k @ '':state'') t s
                                    else Call_set (keyPrefix this @ k @ '':state'') s
                        | None \<Rightarrow> Call_set (keyPrefix this @ k @ '':state'') s]
       \<and> (JSON_stringify J (JObj d) = Inr serialized \<longrightarrow>
          calls (snd (Redis_setData J this userId d c))
           = calls c @ [case ttl this of
                          Some t \<Rightarrow> if num_truthy t then Call_setex (keyPrefix this @ k @ '':data'') t serialized
                                    else Call_set (keyPrefix this @ k @ '':data'') serialized
                        | None \<Rightarrow> Call_set (keyPrefix this @ k @ '':data'') serialized])"
  using assms
  by (auto simp: Redis_setState_def Redis_setData_def getStateKey_def getDataKey_def
        redis_set_def redis_setex_def split: option.splits)

theorem writes_carry_ttl_witness:
  "sanitizeUserId (Num 42) = Inr ''42''
   \<and> calls (snd (Redis_setState (RedisStorage_new None (Some (Num 3600))) (Num 42) ''a''
                   fresh_client))
       = [Call_setex ''fsm:42:state'' (Num 3600) ''a'']
   \<and> calls (snd (Redis_setState (RedisStorage_new None None) (Num 42) ''a'' fresh_client))
       = [Call_set ''fsm:42:state'' ''a'']"
  using writes_carry_ttl [OF sanitize_42, of "RedisStorage_new None (Some (Num 3600))" "''a''"
          fresh_client]
        writes_carry_ttl [OF sanitize_42, of "RedisStorage_new None None" "''a''" fresh_client]
  by (simp add: sanitize_42 RedisStorage_new_def fresh_client_def)

text \<open>
  The claim as stated fails for a configured time-to-live of \<open>0\<close>: the write is a plain
  \<open>set\<close>.
\<close>

theorem ttl_zero_counterexample:
  "calls (snd (Redis_setState (RedisStorage_new None (Some (Num 0))) (Num 42) ''a'' fresh_client))
     = [Call_set ''fsm:42:state'' ''a'']"
  by (simp add: Redis_setState_def getStateKey_def sanitize_42 RedisStorage_new_def
        redis_set_def fresh_client_def)

text \<open>
  What does hold: a text \<open>JSON.parse\<close> throws on is read as no data, and no exception
  leaves \<open>getData\<close>.
\<close>

lemma Redis_getData_parse_throws:
  assumes "getDataKey this userId = Inr key"
    and "entries c key = Some (blob, e)" and "JSON_parse J blob = Inl err"
  shows "fst (Redis_getData J this userId c) = Inr JNull"
  using assms by (simp add: Redis_getData_def redis_get_def)

text \<open>
  C4. A stored text that decodes, but not into a mapping: the JSON text \<open>"abc"\<close> is the
  string \<open>abc\<close>, \<open>Object.keys\<close> of a string lists its indices, and \<open>getData\<close> returns
  the string where the claim has it return none.
\<close>

theorem getData_returns_decoded_string:
  \<open>fst (Redis_getData sample_JSON (RedisStorage_new None None) (Num 42)
          \<lparr>entries = [''fsm:42:data'' \<mapsto> (''"abc"'', None)], calls = []\<rparr>)
     = Inr (JStr ''abc'')\<close>
  by (simp add: Redis_getData_def getDataKey_42 redis_get_def sample_JSON_def sample_parse_def)

section \<open>Properties of both backends\<close>

lemma Redis_getData_stored:
  assumes "getDataKey this userId = Inr key"
    and "entries c key = Some (text, e)" and "text \<noteq> []"
    and "JSON_parse J text = Inr (JObj m)"
  shows "fst (Redis_getData J this userId c) = Inr (if m = Map.empty then JNull else JObj m)"
  using assms by (simp add: Redis_getData_def redis_get_def)

lemma Redis_getData_absent:
  assumes "getDataKey this userId = Inr key" and "entries c key = None"
  shows "fst (Redis_getData J this userId c) = Inr JNull"
  using assms by (simp add: Redis_getData_def redis_get_def)

text \<open>
  C5. \<open>getData\<close> of the in-memory backend returns none exactly when no record is stored
  for the key or the stored mapping is empty, and the stored mapping otherwise. So does
  \<open>getData\<close> of the external backend, for a valid user key whose data sub-key holds
  nothing or holds the encoding of a mapping (a non-empty text that decodes to it).
\<close>

theorem getData_flattens_empty:
  "Memory_getData userId mem
     = (case map_option data (mem userId) of
          None \<Rightarrow> None
        | Some m \<Rightarrow> if m = Map.empty then None else Some m)
   \<and> (getDataKey this userId = Inr key
        \<and> (case stored of
             None \<Rightarrow> entries c key = None
           | Some m \<Rightarrow> \<exists>text e. entries c key = Some (text, e) \<and> text \<noteq> []
                                \<and> JSON_parse J text = Inr (JObj m))
      \<longrightarrow> fst (Redis_getData J this userId c)
            = Inr (case stored of
                     None \<Rightarrow> JNull
                   | Some m \<Rightarrow> if m = Map.empty then JNull else JObj m))"
  by (auto simp: Memory_getData_def Redis_getData_stored Redis_getData_absent
        split: option.splits)

theorem getData_flattens_empty_witness:
  \<open>Memory_getData (Num 42) [Num 42 \<mapsto> \<lparr>state = Some ''a'', data = [''x'' \<mapsto> JNum (Num 1)]\<rparr>]
     = Some [''x'' \<mapsto> JNum (Num 1)]
   \<and> Memory_getData (Num 42) [Num 42 \<mapsto> \<lparr>state = Some ''a'', data = Map.empty\<rparr>] = None
   \<and> getDataKey (RedisStorage_new None None) (Num 42) = Inr ''fsm:42:data''
   \<and> fst (Redis_getData sample_JSON (RedisStorage_new None None) (Num 42)
            \<lparr>entries = [''fsm:42:data'' \<mapsto> (''{"a":1}'', None)], calls = []\<rparr>)
       = Inr (JObj [''a'' \<mapsto> JNum (Num 1)])
   \<and> fst (Redis_getData sample_JSON (RedisStorage_new None None) (Num 42)
            \<lparr>entries = [''fsm:42:data'' \<mapsto> (''{}'', None)], calls = []\<rparr>)
       = Inr JNull\<close>
  using getData_flattens_empty
          [where userId = "Num 42"
             and mem = "[Num 42 \<mapsto> \<lparr>state = Some ''a'', data = [''x'' \<mapsto> JNum (Num 1)]\<rparr>]"
             and this = "RedisStorage_new None None" and key = "''fsm:42:data''"
             and stored = "Some [''a'' \<mapsto> JNum (Num 1)]"
             and c = \<open>\<lparr>entries = [''fsm:42:data'' \<mapsto> (''{"a":1}'', None)], calls = []\<rparr>\<close>
             and J = sample_JSON]
        getData_flattens_empty
          [where userId = "Num 42"
             and mem = "[Num 42 \<mapsto> \<lparr>state = Some ''a'', data = Map.empty\<rparr>]"
             and this = "RedisStorage_new None None" and key = "''fsm:42:data''"
             and stored = "Some Map.empty"
             and c = \<open>\<lparr>entries = [''fsm:42:data'' \<mapsto> (''{}'', None)], calls = []\<rparr>\<close>
             and J = sample_JSON]
  by (simp add: getDataKey_42 sample_JSON_def sample_parse_def)

lemma Redis_updateData_stored:
  assumes key: "getDataKey this userId = Inr key"
    and stored: "case stored of
             None \<Rightarrow> entries c key = None
           | Some m \<Rightarrow> \<exists>text e. entries c key = Some (text, e) \<and> text \<noteq> []
                                \<and> JSON_parse J text = Inr (JObj m)"
    and ser: "JSON_stringify J (JObj (obj_spread (case stored of None \<Rightarrow> Map.empty | Some m \<Rightarrow> m) partial))
            = Inr serialized"
  shows "fst (Redis_updateData J this userId partial c) = Inr ()
       \<and> map_option fst (entries (snd (Redis_updateData J this userId partial c)) key)
           = Some serialized"
proof (cases stored)
  case None
  with key stored ser show ?thesis
    by (simp add: Redis_updateData_def Redis_getData_def Redis_setData_def redis_get_def
          redis_set_def redis_setex_def split: option.splits)
next
  case (Some m)
  with stored obtain blob e where
    "entries c key = Some (blob, e)" "blob \<noteq> []" "JSON_parse J blob = Inr (JObj m)"
    by auto
  with key ser Some show ?thesis
    by (auto simp: Redis_updateData_def Redis_getData_def Redis_setData_def redis_get_def
          redis_set_def redis_setex_def obj_spread_def split: option.splits)
qed

lemma spread_a1_a2b3:
  "obj_spread [''a'' \<mapsto> JNum (Num 1)] [''a'' \<mapsto> JNum (Num 2), ''b'' \<mapsto> JNum (Num 3)]
     = [''a'' \<mapsto> JNum (Num 2), ''b'' \<mapsto> JNum (Num 3)]"
  by (simp add: obj_spread_def)

lemma Redis_updateData_twice:
  assumes key: "getDataKey this userId = Inr key"
    and fresh: "entries c key = None"
    and s1: "JSON_stringify J (JObj [''a'' \<mapsto> JNum (Num 1)]) = Inr t1"
    and ne: "t1 \<noteq> []"
    and p1: "JSON_parse J t1 = Inr (JObj [''a'' \<mapsto> JNum (Num 1)])"
    and s2: "JSON_stringify J (JObj [''a'' \<mapsto> JNum (Num 2), ''b'' \<mapsto> JNum (Num 3)]) = Inr t2"
  shows "map_option fst
           (entries
              (snd (Redis_updateData J this userId
                      [''a'' \<mapsto> JNum (Num 2), ''b'' \<mapsto> JNum (Num 3)]
                      (snd (Redis_updateData J this userId [''a'' \<mapsto> JNum (Num 1)] c))))
              key)
         = Some t2"
proof -
  let ?c1 = "snd (Redis_updateData J this userId [''a'' \<mapsto> JNum (Num 1)] c)"
  have first: "map_option fst (entries ?c1 key) = Some t1"
    using Redis_updateData_stored
            [where this = this and userId = userId and key = key and stored = None
               and c = c and J = J and partial = "[''a'' \<mapsto> JNum (Num 1)]"
               and serialized = t1]
          key fresh s1
    by (simp add: obj_spread_def)
  then obtain e where "entries ?c1 key = Some (t1, e)"
    by auto
  with ne p1 have held:
    "case Some [''a'' \<mapsto> JNum (Num 1)] of
       None \<Rightarrow> entries ?c1 key = None
     | Some m \<Rightarrow> \<exists>blob e. entries ?c1 key = Some (blob, e) \<and> blob \<noteq> []
                          \<and> JSON_parse J blob = Inr (JObj m)"
    by simp
  show ?thesis
    using Redis_updateData_stored
            [where this = this and userId = userId and key = key
               and stored = "Some [''a'' \<mapsto> JNum (Num 1)]"
               and c = ?c1 and J = J
               and partial = "[''a'' \<mapsto> JNum (Num 2), ''b'' \<mapsto> JNum (Num 3)]"
               and serialized = t2, OF key held]
          s2
    by (simp add: spread_a1_a2b3)
qed

text \<open>
  C6. \<open>updateData\<close> of the in-memory backend stores the spread of the stored mapping
  (empty if none) and the partial, in which a key of the partial wins; two updates with
  \<open>{a:1}\<close> and \<open>{a:2,b:3}\<close> on a key without a record leave \<open>{a:2,b:3}\<close>. \<open>updateData\<close>
  of the external backend, for a valid user key whose data sub-key holds nothing or the
  encoding of a mapping, stores under that sub-key the encoding of the same spread; the
  two updates on an empty sub-key leave the encoding of \<open>{a:2,b:3}\<close>, provided the codec
  decodes its encoding of \<open>{a:1}\<close> back to \<open>{a:1}\<close>.
\<close>

theorem updateData_merges:
  "map_option data (Memory_updateData userId partial mem userId)
     = Some (obj_spread (case mem userId of Some cur \<Rightarrow> data cur | None \<Rightarrow> Map.empty) partial)
   \<and> obj_spread current partial k
     = (case partial k of Some v \<Rightarrow> Some v | None \<Rightarrow> current k)
   \<and> (mem userId = None \<longrightarrow>
        map_option data
          (Memory_updateData userId [''a'' \<mapsto> JNum (Num 2), ''b'' \<mapsto> JNum (Num 3)]
             (Memory_updateData userId [''a'' \<mapsto> JNum (Num 1)] mem) userId)
        = Some [''a'' \<mapsto> JNum (Num 2), ''b'' \<mapsto> JNum (Num 3)])
   \<and> (getDataKey this userId = Inr key
        \<and> (case stored of
             None \<Rightarrow> entries c key = None
           | Some m \<Rightarrow> \<exists>blob e. entries c key = Some (blob, e) \<and> blob \<noteq> []
                                \<and> JSON_parse J blob = Inr (JObj m))
        \<and> JSON_stringify J
             (JObj (obj_spread (case stored of None \<Rightarrow> Map.empty | Some m \<Rightarrow> m) partial))
           = Inr serialized
      \<longrightarrow> fst (Redis_updateData J this userId partial c) = Inr ()
        \<and> map_option fst (entries (snd (Redis_updateData J this userId partial c)) key)
           = Some serialized)
   \<and> (getDataKey this userId = Inr key \<and> entries c key = None
        \<and> JSON_stringify J (JObj [''a'' \<mapsto> JNum (Num 1)]) = Inr t1 \<and> t1 \<noteq> []
        \<and> JSON_parse J t1 = Inr (JObj [''a'' \<mapsto> JNum (Num 1)])
        \<and> JSON_stringify J (JObj [''a'' \<mapsto> JNum (Num 2), ''b'' \<mapsto> JNum (Num 3)]) = Inr t2
      \<longrightarrow> map_option fst
            (entries
               (snd (Redis_updateData J this userId
                       [''a'' \<mapsto> JNum (Num 2), ''b'' \<mapsto> JNum (Num 3)]
                       (snd (Redis_updateData J this userId [''a'' \<mapsto> JNum (Num 1)] c))))
               key)
          = Some t2)"
proof -
  have "map_option data (Memory_updateData userId partial mem userId)
     = Some (obj_spread (case mem userId of Some cur \<Rightarrow> data cur | None \<Rightarrow> Map.empty) partial)"
    by (simp add: Memory_updateData_def Memory_current_def split: option.splits)
  moreover have "obj_spread current partial k
     = (case partial k of Some v \<Rightarrow> Some v | None \<Rightarrow> current k)"
    by (simp add: obj_spread_def map_add_def split: option.splits)
  moreover have "mem userId = None \<longrightarrow>
        map_option data
          (Memory_updateData userId [''a'' \<mapsto> JNum (Num 2), ''b'' \<mapsto> JNum (Num 3)]
             (Memory_updateData userId [''a'' \<mapsto> JNum (Num 1)] mem) userId)
        = Some [''a'' \<mapsto> JNum (Num 2), ''b'' \<mapsto> JNum (Num 3)]"
    by (simp add: Memory_updateData_def Memory_current_def obj_spread_def)
  ultimately show ?thesis
    using Redis_updateData_stored
            [where this = this and userId = userId and key = key and stored = stored
               and c = c and J = J and partial = partial and serialized = serialized]
          Redis_updateData_twice
            [where this = this and userId = userId and key = key and c = c and J = J
               and ?t1.0 = t1 and ?t2.0 = t2]
    by blast
qed

lemma a2b3_neq_a1:
  "[''a'' \<mapsto> JNum (Num 2), ''b'' \<mapsto> JNum (Num 3)] \<noteq> [''a'' \<mapsto> JNum (Num 1)]"
  by (auto dest: fun_cong [where x = "''b''"])

lemma sample_stringify_a1:
  \<open>JSON_stringify sample_JSON (JObj [''a'' \<mapsto> JNum (Num 1)]) = Inr ''{"a":1}''\<close>
  by (simp add: sample_JSON_def sample_stringify_def)

lemma sample_stringify_a2b3:
  \<open>JSON_stringify sample_JSON (JObj [''a'' \<mapsto> JNum (Num 2), ''b'' \<mapsto> JNum (Num 3)])
     = Inr ''{"a":2,"b":3}''\<close>
  using a2b3_neq_a1 by (simp add: sample_JSON_def sample_stringify_def)

lemma sample_parse_a1:
  \<open>JSON_parse sample_JSON ''{"a":1}'' = Inr (JObj [''a'' \<mapsto> JNum (Num 1)])\<close>
  by (simp add: sample_JSON_def sample_parse_def)

theorem updateData_merges_witness:
  \<open>(Map.empty :: MemoryStorage) (Num 42) = None
   \<and> map_option data
        (Memory_updateData (Num 42) [''a'' \<mapsto> JNum (Num 2), ''b'' \<mapsto> JNum (Num 3)]
           (Memory_updateData (Num 42) [''a'' \<mapsto> JNum (Num 1)] Map.empty) (Num 42))
      = Some [''a'' \<mapsto> JNum (Num 2), ''b'' \<mapsto> JNum (Num 3)]
   \<and> getDataKey (RedisStorage_new None None) (Num 42) = Inr ''fsm:42:data''
   \<and> entries fresh_client ''fsm:42:data'' = None
   \<and> map_option fst
        (entries
           (snd (Redis_updateData sample_JSON (RedisStorage_new None None) (Num 42)
                   [''a'' \<mapsto> JNum (Num 2), ''b'' \<mapsto> JNum (Num 3)]
                   (snd (Redis_updateData sample_JSON (RedisStorage_new None None) (Num 42)
                           [''a'' \<mapsto> JNum (Num 1)] fresh_client))))
           ''fsm:42:data'')
      = Some ''{"a":2,"b":3}''\<close>
proof -
  have fresh: "entries fresh_client ''fsm:42:data'' = None"
    by (simp add: fresh_client_def)
  have ne: \<open>''{"a":1}'' \<noteq> []\<close>
    by simp
  from updateData_merges
         [where userId = "Num 42" and mem = Map.empty
            and this = "RedisStorage_new None None" and key = "''fsm:42:data''"
            and c = fresh_client and J = sample_JSON
            and ?t1.0 = \<open>''{"a":1}''\<close> and ?t2.0 = \<open>''{"a":2,"b":3}''\<close>]
       getDataKey_42 fresh ne sample_stringify_a1 sample_stringify_a2b3 sample_parse_a1
  show ?thesis
    by blast
qed

section \<open>Properties of the data surface\<close>

lemma in_target_method: "name \<in> set namespace_methods \<Longrightarrow> in_target name"
  by (simp add: in_target_def)

lemma method_not_proto: "name \<in> set namespace_methods \<Longrightarrow> name \<noteq> ''__proto__''"
  by (auto simp: namespace_methods_def)

text \<open>
  C2, as amended. For every method name of the data surface, the proxy's \<open>set\<close> trap
  rejects a direct assignment to that name and leaves the session untouched, and the
  name still reads as the method. Whether the rejected assignment is silent depends on
  the code that holds it: in non-strict code it returns normally, in strict code the
  engine raises \<open>TypeError\<close>. Storing a field of that name through \<open>set(key, value)\<close>
  succeeds: the field is in the mapping and \<open>get(key)\<close> returns it.
\<close>

theorem reserved_names_rejected:
  assumes "name \<in> set namespace_methods"
  shows "proxy_set name v sd = (False, sd)
       \<and> data_assign strict name v sd = (if strict then Inl TypeError else Inr (), sd)
       \<and> proxy_get name sd = JFun (''namespace.'' @ name)
       \<and> data (data_set name v sd) = (data sd)(name \<mapsto> v)
       \<and> data_get name (data_set name v sd) = v
       \<and> proxy_get name (data_set name v sd) = JFun (''namespace.'' @ name)"
  using assms in_target_method [OF assms] method_not_proto [OF assms]
  by (simp add: proxy_set_def data_assign_def proxy_get_def target_get_def data_set_def
        data_get_def obj_put_def obj_get_def)

theorem reserved_names_rejected_witness:
  "''set'' \<in> set namespace_methods
   \<and> data_assign False ''set'' (JStr ''x'') \<lparr>state = None, data = Map.empty\<rparr>
       = (Inr (), \<lparr>state = None, data = Map.empty\<rparr>)
   \<and> proxy_get ''set'' \<lparr>state = None, data = Map.empty\<rparr> = JFun ''namespace.set''
   \<and> data_get ''set'' (data_set ''set'' (JStr ''x'') \<lparr>state = None, data = Map.empty\<rparr>) = JStr ''x''"
proof -
  have h: "''set'' \<in> set namespace_methods"
    by (simp add: namespace_methods_def)
  from reserved_names_rejected [OF h, of "JStr ''x''" "\<lparr>state = None, data = Map.empty\<rparr>" False]
  show ?thesis using h by simp
qed

text \<open>
  The claim as stated, "does not throw", fails in strict code: the assignment
  \<open>ctx.data.set = "x"\<close> raises \<open>TypeError\<close>.
\<close>

theorem strict_assignment_throws:
  "fst (data_assign True ''set'' (JStr ''x'') \<lparr>state = None, data = Map.empty\<rparr>) = Inl TypeError"
  by (simp add: data_assign_def proxy_set_def in_target_def namespace_methods_def)

section \<open>Properties of the lifecycle middleware\<close>

lemma traced_simps:
  "setState (traced storage) userId s (st, tr)
     = (fst (setState storage userId s st),
        (snd (setState storage userId s st), tr @ [Storage_setState userId s]))"
  "getState (traced storage) userId (st, tr)
     = (fst (getState storage userId st),
        (snd (getState storage userId st), tr @ [Storage_getState userId]))"
  "setData (traced storage) userId d (st, tr)
     = (fst (setData storage userId d st),
        (snd (setData storage userId d st), tr @ [Storage_setData userId d]))"
  "getData (traced storage) userId (st, tr)
     = (fst (getData storage userId st),
        (snd (getData storage userId st), tr @ [Storage_getData userId]))"
  "clear (traced storage) userId (st, tr)
     = (fst (clear storage userId st),
        (snd (clear storage userId st), tr @ [Storage_clear userId]))"
  by (simp_all add: traced_def split: prod.splits)

text \<open>
  Recording the calls changes neither the outcome of a run, nor what it does to the
  backend, nor what it does outside.
\<close>

lemma createFSM_traced:
  "outcome (createFSM (traced storage) globalOnStateChange from_id next (st, tr) w)
     = outcome (createFSM storage globalOnStateChange from_id next st w)
   \<and> fst (store (createFSM (traced storage) globalOnStateChange from_id next (st, tr) w))
     = store (createFSM storage globalOnStateChange from_id next st w)
   \<and> outside (createFSM (traced storage) globalOnStateChange from_id next (st, tr) w)
     = outside (createFSM storage globalOnStateChange from_id next st w)"
  by (auto simp: createFSM_def traced_simps Let_def split: option.splits prod.splits sum.splits)

text \<open>
  Around the claim: without a user no method of the backend is applied; a handler that
  throws ends the run after the two loads, with nothing written; and two runs on the
  in-memory backend, one that clears a stored session and one that finds and leaves no
  state.
\<close>

lemma no_user_no_backend_call:
  assumes "from_id = None \<or> (\<exists>n. from_id = Some n \<and> \<not> num_truthy n)"
  shows "store (createFSM (traced storage) globalOnStateChange from_id next (st, tr) w)
           = (st, tr)
       \<and> outcome (createFSM (traced storage) globalOnStateChange from_id next (st, tr) w)
           = fst (next_plain next w)"
  using assms by (auto simp: createFSM_def split: prod.splits)

lemma throwing_handler_skips_flush:
  assumes "num_truthy userId"
    and "getState storage userId st = (Inr loaded, st1)"
    and "getData storage userId st1 = (Inr loaded_data, st2)"
    and "next_attached next (map_option (\<lambda>g. g userId) globalOnStateChange)
           \<lparr>sessionData =
              \<lparr>state = loaded,
               data = (case loaded_data of Some d \<Rightarrow> d | None \<Rightarrow> Map.empty)\<rparr>,
            world = w\<rparr>
         = (Inl e, f)"
  shows "store (createFSM (traced storage) globalOnStateChange (Some userId) next (st, tr) w)
           = (st2, tr @ [Storage_getState userId, Storage_getData userId])
       \<and> outcome (createFSM (traced storage) globalOnStateChange (Some userId) next (st, tr) w)
           = Inl e"
  using assms by (simp add: createFSM_def traced_simps)

lemma clearing_run:
  "store
     (createFSM (traced MemoryStorage_FSMStorage) None (Some (Num 42))
        \<lparr>next_attached = fsm_clear, next_plain = (\<lambda>w. (Inr (), w))\<rparr>
        ([Num 42 \<mapsto> \<lparr>state = Some ''awaiting_name'', data = [''name'' \<mapsto> JStr ''Ann'']\<rparr>], [])
        ())
     = (Map.empty,
        [Storage_getState (Num 42), Storage_getData (Num 42), Storage_clear (Num 42)])"
  by (simp add: createFSM_def traced_simps MemoryStorage_FSMStorage_def Memory_getState_def
        Memory_getData_def Memory_clear_def fsm_clear_def)

lemma idle_run:
  "store
     (createFSM (traced MemoryStorage_FSMStorage) None (Some (Num 42))
        \<lparr>next_attached = (\<lambda>cb f. (Inr (), f)), next_plain = (\<lambda>w. (Inr (), w))\<rparr>
        (Map.empty, []) ())
     = (Map.empty, [Storage_getState (Num 42), Storage_getData (Num 42)])"
  by (simp add: createFSM_def traced_simps MemoryStorage_FSMStorage_def Memory_getState_def
        Memory_getData_def)



end
